theory Spec2Isabelle
  imports Main "HOL-Library.Word"
begin

section \<open>The JNI bridge of whisper_jni.cpp\<close>

text \<open>
  The file \<^verbatim>\<open>app/src/main/cpp/whisper_jni.cpp\<close> exports three functions to the Java class
  \<^verbatim>\<open>SpeechRecognitionThread\<close>: \<^verbatim>\<open>initWhisper\<close> (the specification's \<open>initialize\<close>),
  \<^verbatim>\<open>transcribeAudio\<close> (\<open>transcribe\<close>) and \<^verbatim>\<open>freeWhisper\<close> (\<open>release\<close>).
  They are embedded below as functions on an explicit \<open>world\<close>: the native heap of
  inference contexts, the contents of the Java float arrays, and the trace of the calls
  with a lasting effect (log lines, engine calls, releases of JNI resources).

  The whisper library and the JVM are not part of the file. The library is a record of
  functions (\<open>whisper_api\<close>), the JVM's choices are a record of functions (\<open>jni_env\<close>);
  every theorem holds for all of them.
\<close>

subsection \<open>Scalar types and strings\<close>

text \<open>
  \<^verbatim>\<open>jlong\<close> is a 64-bit integer. A \<^verbatim>\<open>whisper_context *\<close> is represented by the integer that
  \<^verbatim>\<open>reinterpret_cast<jlong>\<close> gives for it, so both casts are the identity and the null
  pointer is \<open>0\<close>. C's \<^verbatim>\<open>int\<close>, \<^verbatim>\<open>jint\<close> and \<^verbatim>\<open>jsize\<close> are mathematical integers: the only
  arithmetic of the file is \<^verbatim>\<open>++i\<close> under the guard \<^verbatim>\<open>i < n_segments\<close>, which cannot overflow.
  A \<^verbatim>\<open>jfloat\<close> is the bit pattern of a sample; the file passes samples on and never
  computes with them. A C string (\<^verbatim>\<open>const char *\<close>) and a \<^verbatim>\<open>std::string\<close> are a \<open>string\<close>
  without the terminating NUL; a null \<^verbatim>\<open>const char *\<close> or \<^verbatim>\<open>jstring\<close> is \<open>None\<close>.
\<close>

type_synonym jlong = "64 word"
type_synonym jint = int
type_synonym jfloat = "32 word"
type_synonym jstring = nat
type_synonym jfloatArray = nat

subsection \<open>The whisper library (whisper.h)\<close>

datatype whisper_sampling_strategy = WHISPER_SAMPLING_GREEDY | WHISPER_SAMPLING_BEAM_SEARCH

text \<open>The fields of \<^verbatim>\<open>whisper_full_params\<close> that the file names, and the strategy.\<close>

record whisper_full_params =
  strategy :: whisper_sampling_strategy
  n_threads :: int
  offset_ms :: int
  duration_ms :: int
  translate :: bool
  print_special :: bool
  print_progress :: bool
  print_realtime :: bool
  print_timestamps :: bool
  language :: string

record whisper_context_params =
  use_gpu :: bool

text \<open>
  A loaded context: an internal state the file never looks at, and the segments of the
  last inference run. A segment whose \<^verbatim>\<open>whisper_full_get_segment_text\<close> is the null
  pointer is \<open>None\<close>.
\<close>

record whisper_context =
  internal :: nat
  result_all :: "string option list"

text \<open>
  The library's functions that decide something: the default parameter values, whether
  and where a model loads (the pointer returned, null on failure, and the context it
  points to), and what an inference run returns (the status and the context after it;
  the samples are \<^verbatim>\<open>const float *\<close>, so the run cannot write them).
\<close>

record whisper_api =
  api_context_default_params :: whisper_context_params
  api_init_from_file :: "string \<Rightarrow> whisper_context_params \<Rightarrow> (jlong \<rightharpoonup> whisper_context)
                         \<Rightarrow> jlong \<times> whisper_context"
  api_full_default_params :: "whisper_sampling_strategy \<Rightarrow> whisper_full_params"
  api_full :: "whisper_context \<Rightarrow> whisper_full_params \<Rightarrow> jfloat list \<Rightarrow> int
               \<Rightarrow> int \<times> whisper_context"

subsection \<open>The JVM (jni.h) and the log\<close>

datatype release_mode = JNI_COPY_BACK_AND_FREE | JNI_COMMIT | JNI_ABORT

text \<open>
  What the JVM decides: whether \<^verbatim>\<open>GetStringUTFChars\<close> hands out the characters of a
  string (\<open>None\<close>: it returns the null pointer), and whether \<^verbatim>\<open>GetFloatArrayElements\<close>
  hands out the elements of an array, as a copy (\<open>Some True\<close>) or as a pointer into
  the array itself (\<open>Some False\<close>). The release mode \<^verbatim>\<open>0\<close> of jni.h, which copies back
  and frees, has no name there; it is \<open>JNI_COPY_BACK_AND_FREE\<close> here.
\<close>

record jni_env =
  string_utf_chars :: "jstring \<Rightarrow> string option"
  float_array_elements :: "jfloatArray \<Rightarrow> bool option"

record elements =
  buffer :: "jfloat list"
  is_copy :: bool

datatype log_priority = ANDROID_LOG_DEBUG | ANDROID_LOG_ERROR

datatype log_arg = Arg_d int | Arg_s string

datatype event =
    Android_log log_priority string string "log_arg list"
  | Release_string_chars jstring
  | Release_float_elements jfloatArray release_mode
  | Whisper_init string whisper_context_params
  | Whisper_full jlong whisper_full_params int
  | Whisper_free jlong

record world =
  contexts :: "jlong \<rightharpoonup> whisper_context"
  float_arrays :: "jfloatArray \<Rightarrow> jfloat list"
  trace :: "event list"

text \<open>
  Passing a non-null pointer that is not a live context to the library is undefined
  behaviour in C++; the model stops there with a fault.
\<close>

datatype native_fault = Invalid_context jlong

definition emit :: "event \<Rightarrow> world \<Rightarrow> world" where
  "emit e w = w\<lparr>trace := trace w @ [e]\<rparr>"

definition LOG_TAG :: string where
  "LOG_TAG = ''WhisperJNI''"

definition LOGD :: "string \<Rightarrow> log_arg list \<Rightarrow> world \<Rightarrow> world" where
  "LOGD fmt args w = emit (Android_log ANDROID_LOG_DEBUG LOG_TAG fmt args) w"

definition LOGE :: "string \<Rightarrow> log_arg list \<Rightarrow> world \<Rightarrow> world" where
  "LOGE fmt args w = emit (Android_log ANDROID_LOG_ERROR LOG_TAG fmt args) w"

definition GetStringUTFChars :: "jni_env \<Rightarrow> jstring \<Rightarrow> string option" where
  "GetStringUTFChars env s = string_utf_chars env s"

definition ReleaseStringUTFChars :: "jstring \<Rightarrow> world \<Rightarrow> world" where
  "ReleaseStringUTFChars s w = emit (Release_string_chars s) w"

definition GetFloatArrayElements :: "jni_env \<Rightarrow> world \<Rightarrow> jfloatArray \<Rightarrow> elements option" where
  "GetFloatArrayElements env w a =
     (case float_array_elements env a of
        None \<Rightarrow> None
      | Some c \<Rightarrow> Some \<lparr>buffer = float_arrays w a, is_copy = c\<rparr>)"

definition GetArrayLength :: "world \<Rightarrow> jfloatArray \<Rightarrow> int" where
  "GetArrayLength w a = int (length (float_arrays w a))"

text \<open>
  Releasing the elements writes a copy back to the array unless the mode is
  \<^verbatim>\<open>JNI_ABORT\<close>; elements that are not a copy are the array, and nothing is written.
\<close>

definition ReleaseFloatArrayElements ::
  "jfloatArray \<Rightarrow> elements \<Rightarrow> release_mode \<Rightarrow> world \<Rightarrow> world" where
  "ReleaseFloatArrayElements a elems mode w =
     emit (Release_float_elements a mode)
       (if is_copy elems \<and> mode \<noteq> JNI_ABORT
        then w\<lparr>float_arrays := (float_arrays w)(a := buffer elems)\<rparr>
        else w)"

text \<open>
  The new Java string is represented by its characters; the JVM is taken to have the
  memory for it, so the call returns a string.
\<close>

definition NewStringUTF :: "string \<Rightarrow> string option" where
  "NewStringUTF bytes = Some bytes"

subsection \<open>Library calls on the world\<close>

definition whisper_context_default_params :: "whisper_api \<Rightarrow> whisper_context_params" where
  "whisper_context_default_params api = api_context_default_params api"

definition whisper_init_from_file_with_params ::
  "whisper_api \<Rightarrow> string \<Rightarrow> whisper_context_params \<Rightarrow> world \<Rightarrow> jlong \<times> world" where
  "whisper_init_from_file_with_params api path cparams w =
     (let (p, c) = api_init_from_file api path cparams (contexts w);
          w1 = emit (Whisper_init path cparams) w
      in if p = 0 then (0, w1) else (p, w1\<lparr>contexts := (contexts w1)(p \<mapsto> c)\<rparr>))"

definition whisper_full_default_params ::
  "whisper_api \<Rightarrow> whisper_sampling_strategy \<Rightarrow> whisper_full_params" where
  "whisper_full_default_params api s = api_full_default_params api s"

definition whisper_full ::
  "whisper_api \<Rightarrow> jlong \<Rightarrow> whisper_full_params \<Rightarrow> jfloat list \<Rightarrow> int \<Rightarrow> world
   \<Rightarrow> native_fault + (int \<times> whisper_context \<times> world)" where
  "whisper_full api ctx params samples n_samples w =
     (case contexts w ctx of
        None \<Rightarrow> Inl (Invalid_context ctx)
      | Some c \<Rightarrow>
          (let (status, c') = api_full api c params samples n_samples
           in Inr (status, c',
                   emit (Whisper_full ctx params n_samples)
                     (w\<lparr>contexts := (contexts w)(ctx \<mapsto> c')\<rparr>))))"

definition whisper_full_n_segments :: "whisper_context \<Rightarrow> int" where
  "whisper_full_n_segments c = int (length (result_all c))"

text \<open>The loop below asks for indices from \<open>0\<close> to \<open>n_segments - 1\<close> only.\<close>

definition whisper_full_get_segment_text :: "whisper_context \<Rightarrow> int \<Rightarrow> string option" where
  "whisper_full_get_segment_text c i =
     (if 0 \<le> i \<and> i < int (length (result_all c)) then result_all c ! nat i else None)"

definition whisper_free :: "jlong \<Rightarrow> world \<Rightarrow> native_fault + world" where
  "whisper_free ctx w =
     (case contexts w ctx of
        None \<Rightarrow> Inl (Invalid_context ctx)
      | Some c \<Rightarrow> Inr (emit (Whisper_free ctx) (w\<lparr>contexts := (contexts w)(ctx := None)\<rparr>)))"

section \<open>The three exported functions\<close>

subsection \<open>initWhisper\<close>

definition initWhisper :: "whisper_api \<Rightarrow> jni_env \<Rightarrow> world \<Rightarrow> jstring \<Rightarrow> jlong \<times> world" where
  "initWhisper api env w model_path =
     (case GetStringUTFChars env model_path of
        None \<Rightarrow> (0, LOGE ''Failed to get model path'' [] w)
      | Some modelPath \<Rightarrow>
          (let w1 = LOGD ''Initializing whisper with model: %s'' [Arg_s modelPath] w;
               cparams = whisper_context_default_params api;
               (ctx, w2) = whisper_init_from_file_with_params api modelPath cparams w1;
               w3 = ReleaseStringUTFChars model_path w2
           in if ctx = 0
              then (0, LOGE ''Failed to initialize whisper context'' [] w3)
              else (ctx, LOGD ''Whisper context initialized successfully'' [] w3)))"

subsection \<open>transcribeAudio\<close>

text \<open>Lines 63 to 74: the library's greedy defaults, then nine assignments.\<close>

definition wparams :: "whisper_api \<Rightarrow> whisper_full_params" where
  "wparams api =
     (whisper_full_default_params api WHISPER_SAMPLING_GREEDY)
       \<lparr>print_realtime := False,
        print_progress := False,
        print_timestamps := False,
        print_special := False,
        translate := False,
        language := ''en'',
        n_threads := 1,
        offset_ms := 0,
        duration_ms := 0\<rparr>"

text \<open>Lines 97 to 105: the loop over the segments, with \<open>i\<close> and \<open>fullText\<close> as arguments.\<close>

function segments_loop :: "whisper_context \<Rightarrow> int \<Rightarrow> int \<Rightarrow> string \<Rightarrow> string" where
  "segments_loop ctx n_segments i fullText =
     (if i < n_segments
      then (case whisper_full_get_segment_text ctx i of
              Some text \<Rightarrow>
                segments_loop ctx n_segments (i + 1)
                  ((if i > 0 then fullText @ '' '' else fullText) @ text)
            | None \<Rightarrow> segments_loop ctx n_segments (i + 1) fullText)
      else fullText)"
  by pat_completeness auto
termination
  by (relation "measure (\<lambda>(ctx, n_segments, i, fullText). nat (n_segments - i))") auto

declare segments_loop.simps [simp del]

definition transcribeAudio ::
  "whisper_api \<Rightarrow> jni_env \<Rightarrow> world \<Rightarrow> jlong \<Rightarrow> jfloatArray \<Rightarrow> jint
   \<Rightarrow> native_fault + (string option \<times> world)" where
  "transcribeAudio api env w context_ptr audio_data sample_rate =
     (if context_ptr = 0
      then Inr (None, LOGE ''Invalid whisper context'' [] w)
      else
        (case GetFloatArrayElements env w audio_data of
           None \<Rightarrow> Inr (None, LOGE ''Failed to get audio data'' [] w)
         | Some audioArray \<Rightarrow>
             (let audioLength = GetArrayLength w audio_data;
                  w1 = LOGD ''Transcribing audio: %d samples at %d Hz''
                         [Arg_d audioLength, Arg_d sample_rate] w
              in case whisper_full api context_ptr (wparams api) (buffer audioArray)
                        audioLength w1 of
                   Inl fault \<Rightarrow> Inl fault
                 | Inr (result, ctx, w2) \<Rightarrow>
                     (let w3 = ReleaseFloatArrayElements audio_data audioArray JNI_ABORT w2
                      in if result \<noteq> 0
                         then Inr (None,
                                LOGE ''Whisper inference failed with code: %d'' [Arg_d result] w3)
                         else
                           (let n_segments = whisper_full_n_segments ctx;
                                w4 = LOGD ''Transcription completed with %d segments''
                                       [Arg_d n_segments] w3
                            in if n_segments = 0
                               then Inr (NewStringUTF '''',
                                      LOGD ''No segments detected in audio'' [] w4)
                               else
                                 (let fullText = segments_loop ctx n_segments 0 ''''
                                  in Inr (NewStringUTF fullText,
                                       LOGD ''Final transcription: %s'' [Arg_s fullText] w4)))))))"

subsection \<open>freeWhisper\<close>

definition freeWhisper :: "world \<Rightarrow> jlong \<Rightarrow> native_fault + world" where
  "freeWhisper w context_ptr =
     (if context_ptr \<noteq> 0
      then whisper_free context_ptr (LOGD ''Freeing whisper context'' [] w)
      else Inr w)"

section \<open>Observations, reference definitions and sample data\<close>

subsection \<open>What a stretch of the trace says\<close>

fun engine_calls :: "event list \<Rightarrow> (jlong \<times> whisper_full_params \<times> int) list" where
  "engine_calls [] = []"
| "engine_calls (Whisper_full p ps n # es) = (p, ps, n) # engine_calls es"
| "engine_calls (e # es) = engine_calls es"

fun free_calls :: "event list \<Rightarrow> jlong list" where
  "free_calls [] = []"
| "free_calls (Whisper_free p # es) = p # free_calls es"
| "free_calls (e # es) = free_calls es"

fun release_modes :: "event list \<Rightarrow> (jfloatArray \<times> release_mode) list" where
  "release_modes [] = []"
| "release_modes (Release_float_elements a m # es) = (a, m) # release_modes es"
| "release_modes (e # es) = release_modes es"

subsection \<open>Join rules\<close>

text \<open>
  What one segment adds to the text in the loop of \<open>transcribeAudio\<close>: nothing when it has
  no text, otherwise its text, after a space unless its index is \<open>0\<close>.
\<close>

fun segment_piece :: "nat \<Rightarrow> string option \<Rightarrow> string" where
  "segment_piece i None = ''''"
| "segment_piece i (Some text) = (if 0 < i then '' '' else '''') @ text"

definition guarded_join :: "string option list \<Rightarrow> string" where
  "guarded_join segs = concat (map (\<lambda>(i, s). segment_piece i s) (enumerate 0 segs))"

text \<open>
  The rule in the words of section 4.3 of the specification: a space before every segment
  except the first, whether or not the segment has a text.
\<close>

definition strict_index_join :: "string option list \<Rightarrow> string" where
  "strict_index_join segs =
     concat (map (\<lambda>(i, s). (if 0 < i then '' '' else '''') @
                            (case s of None \<Rightarrow> '''' | Some text \<Rightarrow> text))
                 (enumerate 0 segs))"

text \<open>The space-joined concatenation of texts, in the words of testable property 6.\<close>

fun space_join :: "string list \<Rightarrow> string" where
  "space_join [] = ''''"
| "space_join [text] = text"
| "space_join (text # rest) = text @ '' '' @ space_join rest"

subsection \<open>A scripted library, a JVM and a world to run the functions on\<close>

definition empty_context :: whisper_context where
  "empty_context = \<lparr>internal = 0, result_all = []\<rparr>"

text \<open>
  A library that loads \<^verbatim>\<open>model.bin\<close> only, and whose inference run returns the given status
  and leaves the given segments.
\<close>

definition scripted_api :: "int \<Rightarrow> string option list \<Rightarrow> whisper_api" where
  "scripted_api status segs =
     \<lparr>api_context_default_params = \<lparr>use_gpu = False\<rparr>,
      api_init_from_file =
        (\<lambda>path cparams live.
           if path = ''model.bin'' then (8192, empty_context) else (0, empty_context)),
      api_full_default_params =
        (\<lambda>s. \<lparr>strategy = s, n_threads = 4, offset_ms = 0, duration_ms = 0, translate = False,
              print_special = False, print_progress = True, print_realtime = False,
              print_timestamps = True, language = ''auto''\<rparr>),
      api_full = (\<lambda>c params samples n_samples. (status, c\<lparr>result_all := segs\<rparr>))\<rparr>"

definition demo_env :: jni_env where
  "demo_env =
     \<lparr>string_utf_chars =
        (\<lambda>s. if s = 0 then Some ''model.bin'' else if s = 1 then Some ''missing.bin'' else None),
      float_array_elements =
        (\<lambda>a. if a = 0 then Some True else if a = 1 then Some False else None)\<rparr>"

definition demo_world :: world where
  "demo_world =
     \<lparr>contexts = [4096 \<mapsto> empty_context],
      float_arrays = (\<lambda>a. if a = 0 then [0, 0, 0] else []),
      trace = []\<rparr>"

section \<open>Lemmas\<close>

lemmas world_ops =
  emit_def LOGD_def LOGE_def ReleaseFloatArrayElements_def ReleaseStringUTFChars_def
  GetFloatArrayElements_def GetArrayLength_def NewStringUTF_def Let_def

lemmas demo_defs = scripted_api_def demo_env_def demo_world_def empty_context_def

lemma engine_calls_append: "engine_calls (xs @ ys) = engine_calls xs @ engine_calls ys"
  by (induction xs rule: engine_calls.induct) simp_all

lemma free_calls_append: "free_calls (xs @ ys) = free_calls xs @ free_calls ys"
  by (induction xs rule: free_calls.induct) simp_all

lemma release_modes_append: "release_modes (xs @ ys) = release_modes xs @ release_modes ys"
  by (induction xs rule: release_modes.induct) simp_all

subsection \<open>The loop\<close>

text \<open>
  The loop invariant: started at index \<open>k\<close> with \<open>acc\<close> collected so far, the loop returns
  \<open>acc\<close> followed by the pieces of the segments from \<open>k\<close> on.
\<close>

lemma segments_loop_from:
  "k \<le> length (result_all c) \<Longrightarrow>
   segments_loop c (int (length (result_all c))) (int k) acc =
     acc @ concat (map (\<lambda>(i, s). segment_piece i s) (enumerate k (drop k (result_all c))))"
proof (induction "length (result_all c) - k" arbitrary: k acc)
  case 0
  then show ?case by (simp add: segments_loop.simps)
next
  case (Suc d)
  then have lt: "k < length (result_all c)" by simp
  then have dr: "drop k (result_all c) = result_all c ! k # drop (Suc k) (result_all c)"
    by (simp add: Cons_nth_drop_Suc)
  have step: "int k + 1 = int (Suc k)" by simp
  from Suc(2) lt have d: "d = length (result_all c) - Suc k" by simp
  have ih: "\<And>acc. segments_loop c (int (length (result_all c))) (int (Suc k)) acc =
     acc @ concat (map (\<lambda>(i, s). segment_piece i s)
                    (enumerate (Suc k) (drop (Suc k) (result_all c))))"
    using Suc(1) [OF d] lt by simp
  show ?case
    apply (subst segments_loop.simps)
    apply (simp only: step ih)
    using lt apply (simp add: dr whisper_full_get_segment_text_def split: option.splits)
    done
qed

lemma segments_loop_all:
  "segments_loop c (whisper_full_n_segments c) 0 '''' = guarded_join (result_all c)"
  using segments_loop_from [of 0 c "''''"]
  by (simp add: whisper_full_n_segments_def guarded_join_def)

lemma pieces_all_some:
  "0 < k \<Longrightarrow> concat (map (\<lambda>(i, s). segment_piece i s) (enumerate k (map Some texts))) =
     concat (map (\<lambda>t. '' '' @ t) texts)"
  by (induction texts arbitrary: k) simp_all

lemma space_join_Cons: "space_join (x # rest) = x @ concat (map (\<lambda>t. '' '' @ t) rest)"
  by (induction rest arbitrary: x) simp_all

lemma guarded_join_all_some: "guarded_join (map Some texts) = space_join texts"
proof (cases texts)
  case Nil
  then show ?thesis by (simp add: guarded_join_def)
next
  case (Cons x rest)
  then show ?thesis
    by (simp add: guarded_join_def pieces_all_some space_join_Cons del: space_join.simps)
qed

lemma pieces_all_none:
  "set segs \<subseteq> {None} \<Longrightarrow>
   concat (map (\<lambda>(i, s). segment_piece i s) (enumerate k segs)) = ''''"
  by (induction segs arbitrary: k) auto

lemma guarded_join_all_none: "set segs \<subseteq> {None} \<Longrightarrow> guarded_join segs = ''''"
  by (simp add: guarded_join_def pieces_all_none)

subsection \<open>The four ways through transcribeAudio\<close>

lemma transcribeAudio_null_context:
  "transcribeAudio api env w 0 audio_data sample_rate =
     Inr (None, LOGE ''Invalid whisper context'' [] w)"
  by (simp add: transcribeAudio_def)

lemma transcribeAudio_no_elements:
  assumes "context_ptr \<noteq> 0" and "float_array_elements env audio_data = None"
  shows "transcribeAudio api env w context_ptr audio_data sample_rate =
           Inr (None, LOGE ''Failed to get audio data'' [] w)"
  using assms by (simp add: transcribeAudio_def GetFloatArrayElements_def)

lemma transcribeAudio_invalid_context:
  assumes "context_ptr \<noteq> 0" and "float_array_elements env audio_data = Some cp"
    and "contexts w context_ptr = None"
  shows "transcribeAudio api env w context_ptr audio_data sample_rate =
           Inl (Invalid_context context_ptr)"
  using assms by (simp add: transcribeAudio_def whisper_full_def world_ops)

lemma transcribeAudio_engine:
  assumes "context_ptr \<noteq> 0" and "float_array_elements env audio_data = Some cp"
    and "contexts w context_ptr = Some c"
    and "api_full api c (wparams api) (float_arrays w audio_data)
           (int (length (float_arrays w audio_data))) = (status, c')"
  shows "\<exists>w' evs.
           transcribeAudio api env w context_ptr audio_data sample_rate =
             Inr (if status \<noteq> 0 then None else Some (guarded_join (result_all c')), w') \<and>
           contexts w' = (contexts w)(context_ptr \<mapsto> c') \<and>
           float_arrays w' = float_arrays w \<and>
           trace w' = trace w @ evs \<and>
           engine_calls evs =
             [(context_ptr, wparams api, int (length (float_arrays w audio_data)))] \<and>
           release_modes evs = [(audio_data, JNI_ABORT)] \<and>
           free_calls evs = []"
proof (cases "status = 0")
  case False
  with assms show ?thesis
    by (simp add: transcribeAudio_def whisper_full_def world_ops)
next
  case True
  note st = this
  show ?thesis
  proof (cases "result_all c' = []")
    case True
    with st assms show ?thesis
      by (simp add: transcribeAudio_def whisper_full_def world_ops whisper_full_n_segments_def
          guarded_join_def)
  next
    case False
    have "segments_loop c' (whisper_full_n_segments c') 0 '''' = guarded_join (result_all c')"
      by (rule segments_loop_all)
    with False st assms show ?thesis
      by (simp add: transcribeAudio_def whisper_full_def world_ops whisper_full_n_segments_def)
  qed
qed

subsection \<open>initWhisper and freeWhisper\<close>

lemma initWhisper_no_path:
  assumes "string_utf_chars env model_path = None"
  shows "initWhisper api env w model_path = (0, LOGE ''Failed to get model path'' [] w)"
  using assms by (simp add: initWhisper_def GetStringUTFChars_def)

lemma initWhisper_path:
  assumes "string_utf_chars env model_path = Some path"
    and "api_init_from_file api path (api_context_default_params api) (contexts w) = (p, c)"
  shows "fst (initWhisper api env w model_path) = p \<and>
         contexts (snd (initWhisper api env w model_path)) =
           (if p = 0 then contexts w else (contexts w)(p \<mapsto> c)) \<and>
         float_arrays (snd (initWhisper api env w model_path)) = float_arrays w"
  using assms
  by (simp add: initWhisper_def GetStringUTFChars_def whisper_init_from_file_with_params_def
      whisper_context_default_params_def world_ops)

lemma freeWhisper_live:
  assumes "context_ptr \<noteq> 0" and "contexts w context_ptr = Some c"
  shows "\<exists>w'. freeWhisper w context_ptr = Inr w' \<and>
               contexts w' = (contexts w)(context_ptr := None) \<and>
               float_arrays w' = float_arrays w \<and>
               free_calls (trace w') = free_calls (trace w) @ [context_ptr]"
  using assms by (simp add: freeWhisper_def whisper_free_def world_ops free_calls_append)

section \<open>The claims\<close>

text \<open>
  Claim C1. When the engine returns status zero and leaves zero segments, \<open>transcribeAudio\<close>
  returns the empty string, a value (\<open>Some\<close>), and not the absent value (\<open>None\<close>): for every
  library, JVM and world, a call with a non-zero handle of a live context whose array
  elements are handed out, and whose inference run returns \<open>0\<close> with no segment, returns
  \<open>Some ''''\<close>.
\<close>

theorem transcribe_zero_segments_empty_string:
  assumes "context_ptr \<noteq> 0" and "float_array_elements env audio_data = Some cp"
    and "contexts w context_ptr = Some c"
    and "api_full api c (wparams api) (float_arrays w audio_data)
           (int (length (float_arrays w audio_data))) = (0, c')"
    and "result_all c' = []"
  shows "\<exists>w'. transcribeAudio api env w context_ptr audio_data sample_rate = Inr (Some '''', w')"
proof -
  from transcribeAudio_engine [OF assms(1-4), of sample_rate] obtain w'
    where "transcribeAudio api env w context_ptr audio_data sample_rate =
             Inr (Some (guarded_join (result_all c')), w')"
    by auto
  with assms(5) show ?thesis by (simp add: guarded_join_def)
qed

theorem transcribe_zero_segments_empty_string_witness:
  "(4096 :: jlong) \<noteq> 0 \<and> float_array_elements demo_env 0 = Some True \<and>
   contexts demo_world 4096 = Some empty_context \<and>
   api_full (scripted_api 0 []) empty_context (wparams (scripted_api 0 []))
     (float_arrays demo_world 0) (int (length (float_arrays demo_world 0))) = (0, empty_context) \<and>
   result_all empty_context = [] \<and>
   (\<exists>w'. transcribeAudio (scripted_api 0 []) demo_env demo_world 4096 0 16000 = Inr (Some '''', w'))"
proof -
  have h1: "(4096 :: jlong) \<noteq> 0" by simp
  have h2: "float_array_elements demo_env 0 = Some True" by (simp add: demo_env_def)
  have h3: "contexts demo_world 4096 = Some empty_context" by (simp add: demo_world_def)
  have h4: "api_full (scripted_api 0 []) empty_context (wparams (scripted_api 0 []))
     (float_arrays demo_world 0) (int (length (float_arrays demo_world 0))) = (0, empty_context)"
    by (simp add: scripted_api_def empty_context_def)
  have h5: "result_all empty_context = []" by (simp add: empty_context_def)
  from transcribe_zero_segments_empty_string [OF h1 h2 h3 h4 h5, of 16000] h1 h2 h3 h4 h5
  show ?thesis by blast
qed

text \<open>
  Claim C2. For every call of \<open>transcribeAudio\<close> with the zero handle, whatever the audio
  array and the sample rate, the call returns (it does not fault) and the result is the
  absent value \<open>None\<close>, never a string. The contexts and the arrays are as before and the
  engine is not called.
\<close>

theorem transcribe_null_handle_absent:
  "\<exists>w'. transcribeAudio api env w 0 audio_data sample_rate = Inr (None, w') \<and>
        contexts w' = contexts w \<and> float_arrays w' = float_arrays w \<and>
        engine_calls (trace w') = engine_calls (trace w)"
  by (simp add: transcribeAudio_null_context LOGE_def emit_def engine_calls_append)


text \<open>
  Claim C3 as it is written, with a space before every segment but the first whether or not
  the segment has a text, fails: for the segments \<open>a\<close> and then one without text, the rule
  gives \<open>a\<close> followed by a space, and \<open>transcribeAudio\<close> returns \<open>a\<close>. The space is appended
  inside the test \<^verbatim>\<open>if (text)\<close>.
\<close>

theorem strict_index_join_counterexample:
  "map_sum id fst
     (transcribeAudio (scripted_api 0 [Some ''a'', None]) demo_env demo_world 4096 0 16000)
     = Inr (Some ''a'') \<and>
   strict_index_join [Some ''a'', None] = ''a '' \<and>
   map_sum id fst
     (transcribeAudio (scripted_api 0 [Some ''a'', None]) demo_env demo_world 4096 0 16000)
     \<noteq> Inr (Some (strict_index_join [Some ''a'', None]))"
  by (simp add: transcribeAudio_def whisper_full_def world_ops demo_defs
      whisper_full_n_segments_def whisper_full_get_segment_text_def segments_loop.simps
      strict_index_join_def)

text \<open>
  Claim C3, amended. For every sequence of segments (each with a text or without), the
  result of a successful run is the concatenation, in index order, of one piece for each
  segment: a segment without text contributes nothing, neither text nor space; a segment
  with a text contributes its text, preceded by a single space unless its index is \<open>0\<close>.
\<close>

theorem transcribe_guarded_join:
  assumes "context_ptr \<noteq> 0" and "float_array_elements env audio_data = Some cp"
    and "contexts w context_ptr = Some c"
    and "api_full api c (wparams api) (float_arrays w audio_data)
           (int (length (float_arrays w audio_data))) = (0, c')"
  shows "\<exists>w'. transcribeAudio api env w context_ptr audio_data sample_rate =
                 Inr (Some (guarded_join (result_all c')), w')"
  using transcribeAudio_engine [OF assms, of sample_rate] by auto

theorem transcribe_guarded_join_witness:
  "(4096 :: jlong) \<noteq> 0 \<and> float_array_elements demo_env 0 = Some True \<and>
   contexts demo_world 4096 = Some empty_context \<and>
   api_full (scripted_api 0 [None, Some ''a'', None, Some ''b'']) empty_context
     (wparams (scripted_api 0 [None, Some ''a'', None, Some ''b'']))
     (float_arrays demo_world 0) (int (length (float_arrays demo_world 0)))
     = (0, \<lparr>internal = 0, result_all = [None, Some ''a'', None, Some ''b'']\<rparr>) \<and>
   (\<exists>w'. transcribeAudio (scripted_api 0 [None, Some ''a'', None, Some ''b'']) demo_env demo_world
           4096 0 16000 = Inr (Some '' a b'', w'))"
proof -
  let ?api = "scripted_api 0 [None, Some ''a'', None, Some ''b'']"
  let ?c' = "\<lparr>internal = 0, result_all = [None, Some ''a'', None, Some ''b'']\<rparr>"
  have h1: "(4096 :: jlong) \<noteq> 0" by simp
  have h2: "float_array_elements demo_env 0 = Some True" by (simp add: demo_env_def)
  have h3: "contexts demo_world 4096 = Some empty_context" by (simp add: demo_world_def)
  have h4: "api_full ?api empty_context (wparams ?api)
     (float_arrays demo_world 0) (int (length (float_arrays demo_world 0))) = (0, ?c')"
    by (simp add: scripted_api_def empty_context_def)
  have g: "guarded_join (result_all ?c') = '' a b''" by (simp add: guarded_join_def)
  from transcribe_guarded_join [OF h1 h2 h3 h4, of 16000] g h1 h2 h3 h4
  show ?thesis by simp
qed

text \<open>
  Claim C4. For every sequence of segments that all have a text, the result of a successful
  run is the space-joined concatenation of the texts in index order; the segments
  \<open>hello\<close>, \<open>world\<close> give \<open>hello world\<close>, the single segment \<open>hello\<close> gives \<open>hello\<close>, and
  no segment gives the empty string.
\<close>

theorem transcribe_space_join:
  assumes "context_ptr \<noteq> 0" and "float_array_elements env audio_data = Some cp"
    and "contexts w context_ptr = Some c"
    and "api_full api c (wparams api) (float_arrays w audio_data)
           (int (length (float_arrays w audio_data))) = (0, c')"
    and "result_all c' = map Some texts"
  shows "(\<exists>w'. transcribeAudio api env w context_ptr audio_data sample_rate =
                 Inr (Some (space_join texts), w')) \<and>
         space_join [''hello'', ''world''] = ''hello world'' \<and>
         space_join [''hello''] = ''hello'' \<and>
         space_join [] = ''''"
  using transcribeAudio_engine [OF assms(1-4), of sample_rate] assms(5)
  by (auto simp: guarded_join_all_some)

theorem transcribe_space_join_witness:
  "(4096 :: jlong) \<noteq> 0 \<and> float_array_elements demo_env 0 = Some True \<and>
   float_array_elements demo_env 1 = Some False \<and>
   contexts demo_world 4096 = Some empty_context \<and>
   (\<exists>w'. transcribeAudio (scripted_api 0 [Some ''hello'', Some ''world'']) demo_env demo_world
           4096 0 16000 = Inr (Some ''hello world'', w')) \<and>
   (\<exists>w'. transcribeAudio (scripted_api 0 [Some ''hello'']) demo_env demo_world
           4096 1 16000 = Inr (Some ''hello'', w')) \<and>
   (\<exists>w'. transcribeAudio (scripted_api 0 []) demo_env demo_world
           4096 0 16000 = Inr (Some '''', w'))"
proof -
  have h1: "(4096 :: jlong) \<noteq> 0" by simp
  have h2: "float_array_elements demo_env 0 = Some True" by (simp add: demo_env_def)
  have h2': "float_array_elements demo_env 1 = Some False" by (simp add: demo_env_def)
  have h3: "contexts demo_world 4096 = Some empty_context" by (simp add: demo_world_def)
  have h4: "\<And>segs a. api_full (scripted_api 0 segs) empty_context (wparams (scripted_api 0 segs))
     (float_arrays demo_world a) (int (length (float_arrays demo_world a)))
       = (0, \<lparr>internal = 0, result_all = segs\<rparr>)"
    by (simp add: scripted_api_def empty_context_def)
  have a: "\<exists>w'. transcribeAudio (scripted_api 0 [Some ''hello'', Some ''world'']) demo_env
                  demo_world 4096 0 16000 = Inr (Some ''hello world'', w')"
    using transcribe_space_join [OF h1 h2 h3 h4, where texts = "[''hello'', ''world'']"] by simp
  have b: "\<exists>w'. transcribeAudio (scripted_api 0 [Some ''hello'']) demo_env demo_world
           4096 1 16000 = Inr (Some ''hello'', w')"
    using transcribe_space_join [OF h1 h2' h3 h4, where texts = "[''hello'']"] by simp
  have c: "\<exists>w'. transcribeAudio (scripted_api 0 []) demo_env demo_world
           4096 0 16000 = Inr (Some '''', w')"
    using transcribe_space_join [OF h1 h2 h3 h4, where texts = "[]"] by simp
  from h1 h2 h2' h3 a b c show ?thesis by blast
qed

text \<open>
  Claim C5. \<open>initWhisper\<close> always returns a handle (its result has no fault or exception
  alternative). The handle is \<open>0\<close> when the characters of the path string cannot be
  obtained, and when the library's loader returns the null pointer; when the loader returns
  a context, the handle is its non-zero pointer and that context is live afterwards.
\<close>

theorem initWhisper_handle:
  "(string_utf_chars env model_path = None \<longrightarrow> fst (initWhisper api env w model_path) = 0) \<and>
   (\<forall>path. string_utf_chars env model_path = Some path \<and>
       fst (api_init_from_file api path (api_context_default_params api) (contexts w)) = 0
       \<longrightarrow> fst (initWhisper api env w model_path) = 0) \<and>
   (\<forall>path. string_utf_chars env model_path = Some path \<and>
       fst (api_init_from_file api path (api_context_default_params api) (contexts w)) \<noteq> 0
       \<longrightarrow> fst (initWhisper api env w model_path) \<noteq> 0 \<and>
           fst (initWhisper api env w model_path) =
             fst (api_init_from_file api path (api_context_default_params api) (contexts w)) \<and>
           contexts (snd (initWhisper api env w model_path))
               (fst (initWhisper api env w model_path)) =
             Some (snd (api_init_from_file api path (api_context_default_params api)
                          (contexts w))))"
proof (intro conjI allI impI)
  assume "string_utf_chars env model_path = None"
  then show "fst (initWhisper api env w model_path) = 0"
    by (simp add: initWhisper_no_path)
next
  fix path
  assume a: "string_utf_chars env model_path = Some path \<and>
       fst (api_init_from_file api path (api_context_default_params api) (contexts w)) = 0"
  obtain p c where
    pc: "api_init_from_file api path (api_context_default_params api) (contexts w) = (p, c)"
    by (cases "api_init_from_file api path (api_context_default_params api) (contexts w)")
  from a pc initWhisper_path [of env model_path path api w p c]
  show "fst (initWhisper api env w model_path) = 0" by simp
next
  fix path
  assume a: "string_utf_chars env model_path = Some path \<and>
       fst (api_init_from_file api path (api_context_default_params api) (contexts w)) \<noteq> 0"
  obtain p c where
    pc: "api_init_from_file api path (api_context_default_params api) (contexts w) = (p, c)"
    by (cases "api_init_from_file api path (api_context_default_params api) (contexts w)")
  note loaded = initWhisper_path [of env model_path path api w p c]
  from a pc loaded show "fst (initWhisper api env w model_path) \<noteq> 0" by simp
  from a pc loaded show "fst (initWhisper api env w model_path) =
      fst (api_init_from_file api path (api_context_default_params api) (contexts w))"
    by simp
  from a pc loaded
  show "contexts (snd (initWhisper api env w model_path))
          (fst (initWhisper api env w model_path)) =
        Some (snd (api_init_from_file api path (api_context_default_params api) (contexts w)))"
    by simp
qed

theorem initWhisper_handle_witness:
  "string_utf_chars demo_env 2 = None \<and>
   fst (initWhisper (scripted_api 0 []) demo_env demo_world 2) = 0 \<and>
   string_utf_chars demo_env 1 = Some ''missing.bin'' \<and>
   fst (api_init_from_file (scripted_api 0 []) ''missing.bin''
          (api_context_default_params (scripted_api 0 [])) (contexts demo_world)) = 0 \<and>
   fst (initWhisper (scripted_api 0 []) demo_env demo_world 1) = 0 \<and>
   string_utf_chars demo_env 0 = Some ''model.bin'' \<and>
   fst (api_init_from_file (scripted_api 0 []) ''model.bin''
          (api_context_default_params (scripted_api 0 [])) (contexts demo_world)) = 8192 \<and>
   fst (initWhisper (scripted_api 0 []) demo_env demo_world 0) = 8192 \<and>
   contexts (snd (initWhisper (scripted_api 0 []) demo_env demo_world 0)) 8192
     = Some empty_context"
proof -
  have n: "string_utf_chars demo_env 2 = None" by (simp add: demo_env_def)
  have m: "string_utf_chars demo_env 1 = Some ''missing.bin''" by (simp add: demo_env_def)
  have g: "string_utf_chars demo_env 0 = Some ''model.bin''" by (simp add: demo_env_def)
  have mf: "fst (api_init_from_file (scripted_api 0 []) ''missing.bin''
          (api_context_default_params (scripted_api 0 [])) (contexts demo_world)) = 0"
    by (simp add: scripted_api_def)
  have gf: "api_init_from_file (scripted_api 0 []) ''model.bin''
          (api_context_default_params (scripted_api 0 [])) (contexts demo_world)
            = (8192, empty_context)"
    by (simp add: scripted_api_def)
  have r2: "fst (initWhisper (scripted_api 0 []) demo_env demo_world 2) = 0"
    using initWhisper_handle [of demo_env 2 "scripted_api 0 []" demo_world] n by simp
  have r1: "fst (initWhisper (scripted_api 0 []) demo_env demo_world 1) = 0"
    using initWhisper_handle [of demo_env 1 "scripted_api 0 []" demo_world] m mf by simp
  have r0: "fst (initWhisper (scripted_api 0 []) demo_env demo_world 0) = 8192 \<and>
     contexts (snd (initWhisper (scripted_api 0 []) demo_env demo_world 0)) 8192
       = Some empty_context"
    using initWhisper_handle [of demo_env 0 "scripted_api 0 []" demo_world] g gf by auto
  from n m g mf gf r2 r1 r0 show ?thesis by simp
qed

text \<open>
  Claim C6. For every call of \<open>transcribeAudio\<close> with the handle of a live context, if the
  inference run returns a non-zero status, the call returns the absent value \<open>None\<close>;
  afterwards the handle still names a live context (the same contexts are live and nothing
  was freed), the arrays hold what they held, a second call with the same arguments returns
  without a fault, and \<open>freeWhisper\<close> on the handle returns without a fault.
\<close>

theorem transcribe_failed_inference:
  assumes "context_ptr \<noteq> 0" and "float_array_elements env audio_data = Some cp"
    and "contexts w context_ptr = Some c"
    and "api_full api c (wparams api) (float_arrays w audio_data)
           (int (length (float_arrays w audio_data))) = (status, c')"
    and "status \<noteq> 0"
  shows "\<exists>w'. transcribeAudio api env w context_ptr audio_data sample_rate = Inr (None, w') \<and>
              contexts w' context_ptr \<noteq> None \<and>
              dom (contexts w') = dom (contexts w) \<and>
              float_arrays w' = float_arrays w \<and>
              free_calls (trace w') = free_calls (trace w) \<and>
              (\<exists>r w''. transcribeAudio api env w' context_ptr audio_data sample_rate
                         = Inr (r, w'')) \<and>
              (\<exists>w''. freeWhisper w' context_ptr = Inr w'')"
proof -
  from transcribeAudio_engine [OF assms(1-4), of sample_rate] assms(5) obtain w' evs
    where r: "transcribeAudio api env w context_ptr audio_data sample_rate = Inr (None, w')"
      and cs: "contexts w' = (contexts w)(context_ptr \<mapsto> c')"
      and fa: "float_arrays w' = float_arrays w"
      and tr: "trace w' = trace w @ evs"
      and fr: "free_calls evs = []"
    by auto
  from cs have live: "contexts w' context_ptr = Some c'" by simp
  from cs assms(3) have dm: "dom (contexts w') = dom (contexts w)" by auto
  obtain status2 c2 where again: "api_full api c' (wparams api) (float_arrays w' audio_data)
           (int (length (float_arrays w' audio_data))) = (status2, c2)"
    by (cases "api_full api c' (wparams api) (float_arrays w' audio_data)
           (int (length (float_arrays w' audio_data)))")
  from transcribeAudio_engine [OF assms(1,2) live again, of sample_rate]
  have retry: "\<exists>r w''. transcribeAudio api env w' context_ptr audio_data sample_rate
                 = Inr (r, w'')"
    by blast
  from freeWhisper_live [OF assms(1) live]
  have rel: "\<exists>w''. freeWhisper w' context_ptr = Inr w''" by blast
  from r live dm fa tr fr retry rel show ?thesis
    by (simp add: free_calls_append)
qed

theorem transcribe_failed_inference_witness:
  "(4096 :: jlong) \<noteq> 0 \<and> float_array_elements demo_env 0 = Some True \<and>
   contexts demo_world 4096 = Some empty_context \<and>
   api_full (scripted_api 7 []) empty_context (wparams (scripted_api 7 []))
     (float_arrays demo_world 0) (int (length (float_arrays demo_world 0))) = (7, empty_context) \<and>
   (7 :: int) \<noteq> 0 \<and>
   (\<exists>w'. transcribeAudio (scripted_api 7 []) demo_env demo_world 4096 0 16000 = Inr (None, w') \<and>
         contexts w' 4096 \<noteq> None \<and>
         dom (contexts w') = dom (contexts demo_world) \<and>
         float_arrays w' = float_arrays demo_world \<and>
         free_calls (trace w') = free_calls (trace demo_world) \<and>
         (\<exists>r w''. transcribeAudio (scripted_api 7 []) demo_env w' 4096 0 16000 = Inr (r, w'')) \<and>
         (\<exists>w''. freeWhisper w' 4096 = Inr w''))"
proof -
  have h1: "(4096 :: jlong) \<noteq> 0" by simp
  have h2: "float_array_elements demo_env 0 = Some True" by (simp add: demo_env_def)
  have h3: "contexts demo_world 4096 = Some empty_context" by (simp add: demo_world_def)
  have h4: "api_full (scripted_api 7 []) empty_context (wparams (scripted_api 7 []))
     (float_arrays demo_world 0) (int (length (float_arrays demo_world 0))) = (7, empty_context)"
    by (simp add: scripted_api_def empty_context_def)
  have h5: "(7 :: int) \<noteq> 0" by simp
  from transcribe_failed_inference [OF h1 h2 h3 h4 h5, of 16000] h1 h2 h3 h4 h5
  show ?thesis by blast
qed


text \<open>
  Claim C7. Every call of \<open>transcribeAudio\<close> builds the same parameter value, from the
  library's defaults for greedy sampling alone: the strategy of those defaults (greedy, for
  a library whose defaults keep the strategy they are asked for), translation off, the
  language hint \<open>en\<close>, one thread, the four print flags off, and offset and duration \<open>0\<close>.
  A call that reaches the engine (non-zero handle of a live context, elements handed out)
  makes exactly one inference call, with this value and the length of the array.
\<close>

theorem wparams_fields:
  "strategy (wparams api) = strategy (api_full_default_params api WHISPER_SAMPLING_GREEDY) \<and>
   ((\<forall>s. strategy (api_full_default_params api s) = s)
      \<longrightarrow> strategy (wparams api) = WHISPER_SAMPLING_GREEDY) \<and>
   translate (wparams api) = False \<and>
   language (wparams api) = ''en'' \<and>
   n_threads (wparams api) = 1 \<and>
   print_realtime (wparams api) = False \<and>
   print_progress (wparams api) = False \<and>
   print_timestamps (wparams api) = False \<and>
   print_special (wparams api) = False \<and>
   offset_ms (wparams api) = 0 \<and>
   duration_ms (wparams api) = 0 \<and>
   (context_ptr \<noteq> 0 \<and> float_array_elements env audio_data = Some cp \<and>
    contexts w context_ptr = Some c
      \<longrightarrow> (\<exists>r w' evs. transcribeAudio api env w context_ptr audio_data sample_rate = Inr (r, w') \<and>
             trace w' = trace w @ evs \<and>
             engine_calls evs =
               [(context_ptr, wparams api, int (length (float_arrays w audio_data)))]))"
proof -
  have fields: "strategy (wparams api) = strategy (api_full_default_params api WHISPER_SAMPLING_GREEDY) \<and>
   translate (wparams api) = False \<and>
   language (wparams api) = ''en'' \<and>
   n_threads (wparams api) = 1 \<and>
   print_realtime (wparams api) = False \<and>
   print_progress (wparams api) = False \<and>
   print_timestamps (wparams api) = False \<and>
   print_special (wparams api) = False \<and>
   offset_ms (wparams api) = 0 \<and>
   duration_ms (wparams api) = 0"
    by (simp add: wparams_def whisper_full_default_params_def)
  have call: "\<exists>r w' evs. transcribeAudio api env w context_ptr audio_data sample_rate = Inr (r, w') \<and>
             trace w' = trace w @ evs \<and>
             engine_calls evs =
               [(context_ptr, wparams api, int (length (float_arrays w audio_data)))]"
    if h: "context_ptr \<noteq> 0" "float_array_elements env audio_data = Some cp"
      "contexts w context_ptr = Some c"
  proof -
    obtain status c' where run: "api_full api c (wparams api) (float_arrays w audio_data)
           (int (length (float_arrays w audio_data))) = (status, c')"
      by (cases "api_full api c (wparams api) (float_arrays w audio_data)
           (int (length (float_arrays w audio_data)))")
    from transcribeAudio_engine [OF h run, of sample_rate] show ?thesis by blast
  qed
  from fields call show ?thesis by simp
qed

theorem wparams_fields_witness:
  "(\<forall>s. strategy (api_full_default_params (scripted_api 0 []) s) = s) \<and>
   strategy (wparams (scripted_api 0 [])) = WHISPER_SAMPLING_GREEDY \<and>
   n_threads (api_full_default_params (scripted_api 0 []) WHISPER_SAMPLING_GREEDY) = 4 \<and>
   wparams (scripted_api 0 []) =
     \<lparr>strategy = WHISPER_SAMPLING_GREEDY, n_threads = 1, offset_ms = 0, duration_ms = 0,
      translate = False, print_special = False, print_progress = False, print_realtime = False,
      print_timestamps = False, language = ''en''\<rparr> \<and>
   (4096 :: jlong) \<noteq> 0 \<and> float_array_elements demo_env 0 = Some True \<and>
   contexts demo_world 4096 = Some empty_context \<and>
   (\<exists>r w' evs. transcribeAudio (scripted_api 0 []) demo_env demo_world 4096 0 16000 = Inr (r, w') \<and>
      trace w' = trace demo_world @ evs \<and>
      engine_calls evs = [(4096, wparams (scripted_api 0 []), 3)])"
proof -
  have lib: "\<forall>s. strategy (api_full_default_params (scripted_api 0 []) s) = s"
    by (simp add: scripted_api_def)
  have dflt: "n_threads (api_full_default_params (scripted_api 0 []) WHISPER_SAMPLING_GREEDY) = 4"
    by (simp add: scripted_api_def)
  have h1: "(4096 :: jlong) \<noteq> 0" by simp
  have h2: "float_array_elements demo_env 0 = Some True" by (simp add: demo_env_def)
  have h3: "contexts demo_world 4096 = Some empty_context" by (simp add: demo_world_def)
  have len: "int (length (float_arrays demo_world 0)) = 3" by (simp add: demo_world_def)
  note inst = wparams_fields [of "scripted_api 0 []" 4096 demo_env 0 True demo_world empty_context 16000]
  from inst lib have greedy: "strategy (wparams (scripted_api 0 [])) = WHISPER_SAMPLING_GREEDY"
    by blast
  from inst greedy have rec: "wparams (scripted_api 0 []) =
     \<lparr>strategy = WHISPER_SAMPLING_GREEDY, n_threads = 1, offset_ms = 0, duration_ms = 0,
      translate = False, print_special = False, print_progress = False, print_realtime = False,
      print_timestamps = False, language = ''en''\<rparr>"
    by (cases "wparams (scripted_api 0 [])") simp
  from inst h1 h2 h3 len
  have call: "\<exists>r w' evs. transcribeAudio (scripted_api 0 []) demo_env demo_world 4096 0 16000 = Inr (r, w') \<and>
      trace w' = trace demo_world @ evs \<and>
      engine_calls evs = [(4096, wparams (scripted_api 0 []), 3)]"
    by simp
  from lib dflt greedy rec h1 h2 h3 call show ?thesis by blast
qed

text \<open>
  Claim C8. \<open>freeWhisper\<close> with the zero handle does nothing: it returns without a fault and
  the world, its trace included, is unchanged, so nothing is freed. With the non-zero handle
  of a live context it returns without a fault, that context is no longer live, and exactly
  one call of \<^verbatim>\<open>whisper_free\<close>, on that handle, has been added to the trace.
\<close>

theorem freeWhisper_release:
  "freeWhisper w 0 = Inr w \<and>
   (context_ptr \<noteq> 0 \<and> contexts w context_ptr = Some c
      \<longrightarrow> (\<exists>w'. freeWhisper w context_ptr = Inr w' \<and>
             contexts w' = (contexts w)(context_ptr := None) \<and>
             float_arrays w' = float_arrays w \<and>
             free_calls (trace w') = free_calls (trace w) @ [context_ptr]))"
  using freeWhisper_live [of context_ptr w c] by (simp add: freeWhisper_def)

theorem freeWhisper_release_witness:
  "freeWhisper demo_world 0 = Inr demo_world \<and>
   (4096 :: jlong) \<noteq> 0 \<and> contexts demo_world 4096 = Some empty_context \<and>
   (\<exists>w'. freeWhisper demo_world 4096 = Inr w' \<and>
         contexts w' = (contexts demo_world)(4096 := None) \<and>
         float_arrays w' = float_arrays demo_world \<and>
         free_calls (trace w') = free_calls (trace demo_world) @ [4096])"
proof -
  have h1: "(4096 :: jlong) \<noteq> 0" by simp
  have h2: "contexts demo_world 4096 = Some empty_context" by (simp add: demo_world_def)
  from freeWhisper_release [of demo_world 4096 empty_context] h1 h2 show ?thesis by blast
qed

text \<open>
  Claim C9. \<open>transcribeAudio\<close> returns the absent value \<open>None\<close> if and only if the handle
  is zero, or the elements of the audio array are not handed out, or the handle names a
  live context and the inference run returns a non-zero status. Whenever the run returns
  status \<open>0\<close>, the call returns a string; if no segment of the run has a text, that string
  is empty, as it is for a run without segments.
\<close>

theorem transcribe_absent_iff:
  "((\<exists>w'. transcribeAudio api env w context_ptr audio_data sample_rate = Inr (None, w')) \<longleftrightarrow>
      (context_ptr = 0 \<or> float_array_elements env audio_data = None \<or>
       (\<exists>c. contexts w context_ptr = Some c \<and>
            fst (api_full api c (wparams api) (float_arrays w audio_data)
                   (int (length (float_arrays w audio_data)))) \<noteq> 0))) \<and>
   (\<forall>cp c c'. context_ptr \<noteq> 0 \<and> float_array_elements env audio_data = Some cp \<and>
       contexts w context_ptr = Some c \<and>
       api_full api c (wparams api) (float_arrays w audio_data)
         (int (length (float_arrays w audio_data))) = (0, c')
       \<longrightarrow> (\<exists>str w'. transcribeAudio api env w context_ptr audio_data sample_rate = Inr (Some str, w') \<and>
              (set (result_all c') \<subseteq> {None} \<longrightarrow> str = '''')))"
proof (intro conjI allI impI)
  show "(\<exists>w'. transcribeAudio api env w context_ptr audio_data sample_rate = Inr (None, w')) \<longleftrightarrow>
      (context_ptr = 0 \<or> float_array_elements env audio_data = None \<or>
       (\<exists>c. contexts w context_ptr = Some c \<and>
            fst (api_full api c (wparams api) (float_arrays w audio_data)
                   (int (length (float_arrays w audio_data)))) \<noteq> 0))"
  proof (cases "context_ptr = 0")
    case True
    then show ?thesis by (simp add: transcribeAudio_null_context)
  next
    case nz: False
    show ?thesis
    proof (cases "float_array_elements env audio_data")
      case None
      with nz show ?thesis by (simp add: transcribeAudio_no_elements)
    next
      case (Some cp)
      note el = this
      show ?thesis
      proof (cases "contexts w context_ptr")
        case None
        with nz el show ?thesis by (simp add: transcribeAudio_invalid_context)
      next
        case (Some c)
        obtain status c' where run: "api_full api c (wparams api) (float_arrays w audio_data)
           (int (length (float_arrays w audio_data))) = (status, c')"
          by (cases "api_full api c (wparams api) (float_arrays w audio_data)
           (int (length (float_arrays w audio_data)))")
        from transcribeAudio_engine [OF nz el Some run, of sample_rate] obtain w' where
          "transcribeAudio api env w context_ptr audio_data sample_rate =
             Inr (if status \<noteq> 0 then None else Some (guarded_join (result_all c')), w')"
          by blast
        with nz el Some run show ?thesis by simp
      qed
    qed
  qed
next
  fix cp c c'
  assume a: "context_ptr \<noteq> 0 \<and> float_array_elements env audio_data = Some cp \<and>
       contexts w context_ptr = Some c \<and>
       api_full api c (wparams api) (float_arrays w audio_data)
         (int (length (float_arrays w audio_data))) = (0, c')"
  then have h: "context_ptr \<noteq> 0" "float_array_elements env audio_data = Some cp"
       "contexts w context_ptr = Some c"
       "api_full api c (wparams api) (float_arrays w audio_data)
         (int (length (float_arrays w audio_data))) = (0, c')"
    by simp_all
  from transcribeAudio_engine [OF h, of sample_rate] obtain w' where
    "transcribeAudio api env w context_ptr audio_data sample_rate =
       Inr (Some (guarded_join (result_all c')), w')"
    by auto
  then show "\<exists>str w'. transcribeAudio api env w context_ptr audio_data sample_rate = Inr (Some str, w') \<and>
              (set (result_all c') \<subseteq> {None} \<longrightarrow> str = '''')"
    using guarded_join_all_none [of "result_all c'"] by auto
qed

theorem transcribe_absent_iff_witness:
  "(4096 :: jlong) \<noteq> 0 \<and> float_array_elements demo_env 0 = Some True \<and>
   contexts demo_world 4096 = Some empty_context \<and>
   fst (api_full (scripted_api 7 []) empty_context (wparams (scripted_api 7 []))
          (float_arrays demo_world 0) (int (length (float_arrays demo_world 0)))) = 7 \<and>
   (\<exists>w'. transcribeAudio (scripted_api 7 []) demo_env demo_world 4096 0 16000 = Inr (None, w')) \<and>
   api_full (scripted_api 0 [None, None]) empty_context (wparams (scripted_api 0 [None, None]))
     (float_arrays demo_world 0) (int (length (float_arrays demo_world 0)))
     = (0, \<lparr>internal = 0, result_all = [None, None]\<rparr>) \<and>
   \<not> (\<exists>w'. transcribeAudio (scripted_api 0 [None, None]) demo_env demo_world 4096 0 16000
              = Inr (None, w')) \<and>
   (\<exists>w'. transcribeAudio (scripted_api 0 [None, None]) demo_env demo_world 4096 0 16000
              = Inr (Some '''', w'))"
proof -
  let ?bad = "scripted_api 7 []"
  let ?good = "scripted_api 0 [None, None]"
  let ?c' = "\<lparr>internal = 0, result_all = [None, None]\<rparr>"
  have h1: "(4096 :: jlong) \<noteq> 0" by simp
  have h2: "float_array_elements demo_env 0 = Some True" by (simp add: demo_env_def)
  have h3: "contexts demo_world 4096 = Some empty_context" by (simp add: demo_world_def)
  have bad: "fst (api_full ?bad empty_context (wparams ?bad)
          (float_arrays demo_world 0) (int (length (float_arrays demo_world 0)))) = 7"
    by (simp add: scripted_api_def)
  have good: "api_full ?good empty_context (wparams ?good)
     (float_arrays demo_world 0) (int (length (float_arrays demo_world 0))) = (0, ?c')"
    by (simp add: scripted_api_def empty_context_def)
  have none: "set (result_all ?c') \<subseteq> {None}" by simp
  from transcribe_absent_iff [of ?bad demo_env demo_world 4096 0 16000] h3 bad
  have r1: "\<exists>w'. transcribeAudio ?bad demo_env demo_world 4096 0 16000 = Inr (None, w')"
    by simp
  from transcribe_absent_iff [of ?good demo_env demo_world 4096 0 16000] h1 h2 h3 good
  have r2: "\<not> (\<exists>w'. transcribeAudio ?good demo_env demo_world 4096 0 16000 = Inr (None, w'))"
    by simp
  from transcribe_absent_iff [of ?good demo_env demo_world 4096 0 16000] h1 h2 h3 good none
  have r3: "\<exists>w'. transcribeAudio ?good demo_env demo_world 4096 0 16000 = Inr (Some '''', w')"
    by blast
  from h1 h2 h3 bad good r1 r2 r3 show ?thesis by blast
qed

text \<open>
  Claim C10. \<open>transcribeAudio\<close> never changes the caller's audio array: for every call that
  returns, with a string or with the absent value, every float array holds afterwards what
  it held before, and the only release of array elements the call may make is the release
  of the audio array's elements in the mode \<^verbatim>\<open>JNI_ABORT\<close>.
\<close>

theorem transcribe_keeps_audio:
  assumes "transcribeAudio api env w context_ptr audio_data sample_rate = Inr (r, w')"
  shows "float_arrays w' = float_arrays w \<and>
         (\<exists>evs. trace w' = trace w @ evs \<and> set (release_modes evs) \<subseteq> {(audio_data, JNI_ABORT)})"
proof (cases "context_ptr = 0")
  case True
  with assms show ?thesis
    by (auto simp: transcribeAudio_null_context LOGE_def emit_def)
next
  case nz: False
  show ?thesis
  proof (cases "float_array_elements env audio_data")
    case None
    with nz assms show ?thesis
      by (auto simp: transcribeAudio_no_elements LOGE_def emit_def)
  next
    case (Some cp)
    note el = this
    show ?thesis
    proof (cases "contexts w context_ptr")
      case None
      with nz el assms show ?thesis by (simp add: transcribeAudio_invalid_context)
    next
      case (Some c)
      obtain status c' where run: "api_full api c (wparams api) (float_arrays w audio_data)
           (int (length (float_arrays w audio_data))) = (status, c')"
        by (cases "api_full api c (wparams api) (float_arrays w audio_data)
           (int (length (float_arrays w audio_data)))")
      from transcribeAudio_engine [OF nz el Some run, of sample_rate] assms
      show ?thesis by auto
    qed
  qed
qed

theorem transcribe_keeps_audio_witness:
  "transcribeAudio (scripted_api 0 [Some ''hello'']) demo_env demo_world 4096 0 16000 =
     Inr (Some ''hello'',
          demo_world\<lparr>contexts := [4096 \<mapsto> \<lparr>internal = 0, result_all = [Some ''hello'']\<rparr>],
            trace :=
              [Android_log ANDROID_LOG_DEBUG LOG_TAG ''Transcribing audio: %d samples at %d Hz''
                 [Arg_d 3, Arg_d 16000],
               Whisper_full 4096 (wparams (scripted_api 0 [Some ''hello''])) 3,
               Release_float_elements 0 JNI_ABORT,
               Android_log ANDROID_LOG_DEBUG LOG_TAG ''Transcription completed with %d segments''
                 [Arg_d 1],
               Android_log ANDROID_LOG_DEBUG LOG_TAG ''Final transcription: %s''
                 [Arg_s ''hello'']]\<rparr>) \<and>
   float_arrays
     (demo_world\<lparr>contexts := [4096 \<mapsto> \<lparr>internal = 0, result_all = [Some ''hello'']\<rparr>],
            trace :=
              [Android_log ANDROID_LOG_DEBUG LOG_TAG ''Transcribing audio: %d samples at %d Hz''
                 [Arg_d 3, Arg_d 16000],
               Whisper_full 4096 (wparams (scripted_api 0 [Some ''hello''])) 3,
               Release_float_elements 0 JNI_ABORT,
               Android_log ANDROID_LOG_DEBUG LOG_TAG ''Transcription completed with %d segments''
                 [Arg_d 1],
               Android_log ANDROID_LOG_DEBUG LOG_TAG ''Final transcription: %s''
                 [Arg_s ''hello'']]\<rparr>) = float_arrays demo_world \<and>
   float_arrays demo_world 0 = [0, 0, 0]"
proof -
  let ?w' = "demo_world\<lparr>contexts := [4096 \<mapsto> \<lparr>internal = 0, result_all = [Some ''hello'']\<rparr>],
            trace :=
              [Android_log ANDROID_LOG_DEBUG LOG_TAG ''Transcribing audio: %d samples at %d Hz''
                 [Arg_d 3, Arg_d 16000],
               Whisper_full 4096 (wparams (scripted_api 0 [Some ''hello''])) 3,
               Release_float_elements 0 JNI_ABORT,
               Android_log ANDROID_LOG_DEBUG LOG_TAG ''Transcription completed with %d segments''
                 [Arg_d 1],
               Android_log ANDROID_LOG_DEBUG LOG_TAG ''Final transcription: %s''
                 [Arg_s ''hello'']]\<rparr>"
  have run: "transcribeAudio (scripted_api 0 [Some ''hello'']) demo_env demo_world 4096 0 16000 =
     Inr (Some ''hello'', ?w')"
    by (simp add: transcribeAudio_def whisper_full_def world_ops demo_defs
        whisper_full_n_segments_def whisper_full_get_segment_text_def segments_loop.simps)
  have arr: "float_arrays demo_world 0 = [0, 0, 0]" by (simp add: demo_world_def)
  from transcribe_keeps_audio [OF run] run arr show ?thesis by blast
qed

end
